theory Spec2Isabelle
  imports Complex_Main
begin

section \<open>Python values used by \<open>code_metrics.py\<close>\<close>

text \<open>
  A Python \<open>str\<close> is a sequence of Unicode code points; it is modelled as the list of
  its code points (\<open>ord\<close> of each character).  \<open>str\<close> embeds an ASCII literal.
  Python \<open>int\<close> is \<open>int\<close>; Python \<open>float\<close> is modelled by the real number it
  approximates.  The two can differ in the last decimal where a quotient lies exactly
  between two tenths (23 of 80 is 28.75: the floating-point product is just below it and
  \<open>round\<close> gives 28.7, where the exact tie goes to 28.8), so what is stated about a
  rounded field is stated to hold of either neighbour.
\<close>

type_synonym pystr = "int list"

definition str :: "string \<Rightarrow> pystr" where
  "str s = map of_char s"

text \<open>
  The characters for which \<open>str.isspace\<close> holds.  \<open>str.strip()\<close>, \<open>str.split()\<close> and the
  regular-expression class \<open>\s\<close> all use this set.
\<close>

definition isspace :: "int \<Rightarrow> bool" where
  "isspace c = (c \<in> set [9, 10, 11, 12, 13, 28, 29, 30, 31, 32, 133, 160, 5760,
       8192, 8193, 8194, 8195, 8196, 8197, 8198, 8199, 8200, 8201, 8202,
       8232, 8233, 8239, 8287, 12288])"

definition strip :: "pystr \<Rightarrow> pystr" where
  "strip s = rev (dropWhile isspace (rev (dropWhile isspace s)))"

definition startswith :: "pystr \<Rightarrow> pystr \<Rightarrow> bool" where
  "startswith s p = (take (length p) s = p)"

text \<open>\<open>s.split('\n')\<close>: the pieces between line feeds; never the empty list.\<close>

fun split_acc :: "pystr \<Rightarrow> pystr \<Rightarrow> pystr list" where
  "split_acc cur [] = [cur]"
| "split_acc cur (c # cs) =
     (if c = 10 then cur # split_acc [] cs else split_acc (cur @ [c]) cs)"

definition split_nl :: "pystr \<Rightarrow> pystr list" where
  "split_nl s = split_acc [] s"

text \<open>\<open>s.split()\<close>: the maximal runs of non-whitespace characters.\<close>

fun split_ws :: "pystr \<Rightarrow> pystr \<Rightarrow> pystr list" where
  "split_ws cur [] = (if cur = [] then [] else [cur])"
| "split_ws cur (c # cs) =
     (if isspace c then (if cur = [] then split_ws [] cs else cur # split_ws [] cs)
      else split_ws (cur @ [c]) cs)"

definition py_split :: "pystr \<Rightarrow> pystr list" where
  "py_split s = split_ws [] s"

text \<open>\<open>s[a:b]\<close> for indices \<open>0 \<le> a\<close>, \<open>0 \<le> b\<close>; empty when \<open>b \<le> a\<close>.\<close>

definition slice :: "'a list \<Rightarrow> nat \<Rightarrow> nat \<Rightarrow> 'a list" where
  "slice s a b = take (b - a) (drop a s)"

text \<open>\<open>str(n)\<close> for an integer: its decimal digits.\<close>

function digits :: "nat \<Rightarrow> pystr" where
  "digits n = (if n < 10 then [48 + int n] else digits (n div 10) @ [48 + int (n mod 10)])"
  by pat_completeness auto
termination
  by (relation "measure id") auto

definition str_int :: "int \<Rightarrow> pystr" where
  "str_int n = (if n < 0 then 45 # digits (nat (- n)) else digits (nat n))"

text \<open>
  \<open>round(x, 1)\<close>: to the nearest multiple of one tenth, an exact tie going to the even
  neighbour.  \<open>int(x)\<close> on a float truncates towards zero.
\<close>

definition py_round1 :: "real \<Rightarrow> real" where
  "py_round1 x =
     (let y = x * 10; f = \<lfloor>y\<rfloor>; d = y - of_int f
      in of_int (if d < 1 / 2 then f else if 1 / 2 < d then f + 1
                 else if even f then f else f + 1) / 10)"

definition py_int :: "real \<Rightarrow> int" where
  "py_int x = (if 0 \<le> x then \<lfloor>x\<rfloor> else \<lceil>x\<rceil>)"

text \<open>
  \<open>math.log\<close> and \<open>math.log2\<close> raise \<open>ValueError\<close> (math domain error) on an argument
  that is not positive.
\<close>

datatype error = ValueError

definition math_log :: "real \<Rightarrow> error + real" where
  "math_log x = (if x \<le> 0 then Inl ValueError else Inr (ln x))"

definition math_log2 :: "real \<Rightarrow> error + real" where
  "math_log2 x = (if x \<le> 0 then Inl ValueError else Inr (log 2 x))"

text \<open>
  A \<open>dict\<close> keeps its keys in insertion order; assigning to a key that is present
  replaces the value in place.  It is modelled as an association list.
\<close>

fun dict_set :: "('k \<times> 'v) list \<Rightarrow> 'k \<Rightarrow> 'v \<Rightarrow> ('k \<times> 'v) list" where
  "dict_set [] k v = [(k, v)]"
| "dict_set ((k', v') # kvs) k v =
     (if k' = k then (k, v) # kvs else (k', v') # dict_set kvs k v)"

text \<open>\<open>collections.Counter\<close> of a sequence: each distinct element with its number of
  occurrences, in order of first occurrence.\<close>

fun counter_add :: "('k \<times> int) list \<Rightarrow> 'k \<Rightarrow> ('k \<times> int) list" where
  "counter_add [] k = [(k, 1)]"
| "counter_add ((k', n) # kvs) k =
     (if k' = k then (k', n + 1) # kvs else (k', n) # counter_add kvs k)"

definition Counter :: "'k list \<Rightarrow> ('k \<times> int) list" where
  "Counter xs = foldl counter_add [] xs"


section \<open>The regular expressions of the analyzer\<close>

text \<open>
  The patterns modelled here use literals, character classes, \<open>\b\<close>, concatenation,
  alternation, the greedy quantifiers \<open>*\<close>, \<open>+\<close>, \<open>?\<close> and one capturing group.
  \<open>mt r st\<close> lists every way \<open>r\<close> can match at the state \<open>st\<close>, in the order in which
  Python's backtracking matcher tries them, so the head of the list is the match Python
  reports.  A state is the character before the current position (\<open>None\<close>
  at the start of the text), the text from the current position on, and the text of
  group 1 if it has matched.

  \<open>\w\<close> is given for ASCII (letters, digits, underscore); for a code point from 128 on
  Python consults the Unicode database, which is not reproduced: such a character is
  taken as a non-word character.
\<close>

definition is_word :: "int \<Rightarrow> bool" where
  "is_word c = ((48 \<le> c \<and> c \<le> 57) \<or> (65 \<le> c \<and> c \<le> 90) \<or> c = 95 \<or> (97 \<le> c \<and> c \<le> 122))"

datatype rx = Lit int | Cls "int \<Rightarrow> bool" | WordB | Eps
  | Seq rx rx | Alt rx rx | Star rx | Grp rx

type_synonym mstate = "int option \<times> pystr \<times> pystr option"

definition rest :: "mstate \<Rightarrow> pystr" where
  "rest st = fst (snd st)"

definition group1 :: "mstate \<Rightarrow> pystr" where
  "group1 st = (case snd (snd st) of None \<Rightarrow> [] | Some g \<Rightarrow> g)"

definition word_boundary :: "int option \<Rightarrow> pystr \<Rightarrow> bool" where
  "word_boundary p xs =
     ((case p of None \<Rightarrow> False | Some c \<Rightarrow> is_word c) \<noteq>
      (case xs of [] \<Rightarrow> False | c # _ \<Rightarrow> is_word c))"

function (sequential) mt :: "rx \<Rightarrow> mstate \<Rightarrow> mstate list" where
  "mt (Lit c) (p, [], g) = []"
| "mt (Lit c) (p, x # xs, g) = (if x = c then [(Some x, xs, g)] else [])"
| "mt (Cls P) (p, [], g) = []"
| "mt (Cls P) (p, x # xs, g) = (if P x then [(Some x, xs, g)] else [])"
| "mt WordB (p, xs, g) = (if word_boundary p xs then [(p, xs, g)] else [])"
| "mt Eps st = [st]"
| "mt (Seq a b) st = concat (map (mt b) (mt a st))"
| "mt (Alt a b) st = mt a st @ mt b st"
| "mt (Star a) st =
     concat (map (\<lambda>st'. if length (rest st') < length (rest st) then mt (Star a) st' else [])
                 (mt a st)) @ [st]"
| "mt (Grp a) st =
     map (\<lambda>st'. (fst st', rest st',
                  Some (take (length (rest st) - length (rest st')) (rest st))))
         (mt a st)"
  by pat_completeness auto
termination
  by (relation "inv_image (less_than <*lex*> less_than) (\<lambda>(r, st). (size r, length (rest st)))")
     (auto simp: rest_def)

definition lits :: "string \<Rightarrow> rx" where
  "lits s = foldr (\<lambda>c r. Seq (Lit (of_char c)) r) s Eps"

definition seqs :: "rx list \<Rightarrow> rx" where
  "seqs rs = foldr Seq rs Eps"

definition alts :: "rx list \<Rightarrow> rx" where
  "alts rs = foldr Alt (butlast rs) (last rs)"

definition plus :: "rx \<Rightarrow> rx" where
  "plus r = Seq r (Star r)"

definition opt :: "rx \<Rightarrow> rx" where
  "opt r = Alt r Eps"

text \<open>A lower-case literal under \<open>re.IGNORECASE\<close>: the letter, its upper case, and for
  \<open>i\<close>, \<open>k\<close> and \<open>s\<close> the code points outside ASCII that \<open>re\<close> folds to them
  (U+0130 and U+0131, U+212A, U+017F).\<close>

definition ilit :: "int \<Rightarrow> rx" where
  "ilit c = Cls (\<lambda>x. x = c \<or> (97 \<le> c \<and> c \<le> 122 \<and> x = c - 32)
                       \<or> (c = 105 \<and> (x = 304 \<or> x = 305))
                       \<or> (c = 107 \<and> x = 8490)
                       \<or> (c = 115 \<and> x = 383))"

definition ilits :: "string \<Rightarrow> rx" where
  "ilits s = foldr (\<lambda>c r. Seq (ilit (of_char c)) r) s Eps"

abbreviation rx_s :: rx where "rx_s \<equiv> Cls isspace"
abbreviation rx_w :: rx where "rx_w \<equiv> Cls is_word"

text \<open>
  \<open>re.finditer\<close>/\<open>re.findall\<close>: the matches from left to right, each search resuming
  where the previous match ended.  Every entry is the text from the start of the match
  on, and the state at its end.  None of the analyzer's patterns matches the empty
  string; after an empty match the search resumes one character further.
\<close>

function find_iter :: "rx \<Rightarrow> int option \<Rightarrow> pystr \<Rightarrow> (pystr \<times> mstate) list" where
  "find_iter r p xs =
     (case mt r (p, xs, None) of
        [] \<Rightarrow> (case xs of [] \<Rightarrow> [] | y # ys \<Rightarrow> find_iter r (Some y) ys)
      | m # _ \<Rightarrow> (xs, m) #
          (if length (rest m) < length xs then find_iter r (fst m) (rest m)
           else (case xs of [] \<Rightarrow> [] | y # ys \<Rightarrow> find_iter r (Some y) ys)))"
  by pat_completeness auto
termination
  by (relation "measure (\<lambda>(r, p, xs). length xs)") auto

definition finditer :: "rx \<Rightarrow> pystr \<Rightarrow> (pystr \<times> mstate) list" where
  "finditer r s = find_iter r None s"

text \<open>\<open>len(re.findall(p, s))\<close>.\<close>

definition findall_count :: "rx \<Rightarrow> pystr \<Rightarrow> int" where
  "findall_count r s = int (length (finditer r s))"

text \<open>\<open>re.findall(p, s)\<close> for a pattern with one group: the texts of group 1.\<close>

definition findall_group :: "rx \<Rightarrow> pystr \<Rightarrow> pystr list" where
  "findall_group r s = map (\<lambda>m. group1 (snd m)) (finditer r s)"

text \<open>\<open>bool(re.search(p, s))\<close>.\<close>

fun search_from :: "rx \<Rightarrow> int option \<Rightarrow> pystr \<Rightarrow> bool" where
  "search_from r p [] = (mt r (p, [], None) \<noteq> [])"
| "search_from r p (x # xs) = (mt r (p, x # xs, None) \<noteq> [] \<or> search_from r (Some x) xs)"

definition re_search :: "rx \<Rightarrow> pystr \<Rightarrow> bool" where
  "re_search r s = search_from r None s"


section \<open>The analyzer object\<close>

subsection \<open>Block extractor\<close>

text \<open>
  The loop of \<open>_extract_block\<close> over the text from \<open>start_brace\<close> on: \<open>i\<close> is the loop
  index and \<open>depth\<close> the counter.  The result is the value given to \<open>end\<close> at the
  \<open>break\<close>, and \<open>None\<close> when the loop runs to the end of the text without it.
  123 and 125 are the opening and the closing brace.
\<close>

fun scan_block :: "pystr \<Rightarrow> nat \<Rightarrow> int \<Rightarrow> nat option" where
  "scan_block [] i depth = None"
| "scan_block (c # cs) i depth =
     (if c = 123 then scan_block cs (i + 1) (depth + 1)
      else if c = 125 then
        (if depth - 1 = 0 then Some (i + 1) else scan_block cs (i + 1) (depth - 1))
      else scan_block cs (i + 1) depth)"

definition extract_block :: "pystr \<Rightarrow> nat \<Rightarrow> pystr" where
  "extract_block content start_brace =
     (let end = (case scan_block (drop start_brace content) start_brace 0 of
                   None \<Rightarrow> start_brace
                 | Some e \<Rightarrow> e)
      in slice content start_brace end)"

text \<open>The values \<open>depth\<close> takes, one per iteration of the same loop.\<close>

fun scan_depths :: "pystr \<Rightarrow> int \<Rightarrow> int list" where
  "scan_depths [] depth = []"
| "scan_depths (c # cs) depth =
     (if c = 123 then (depth + 1) # scan_depths cs (depth + 1)
      else if c = 125 then
        (if depth - 1 = 0 then [depth - 1] else (depth - 1) # scan_depths cs (depth - 1))
      else depth # scan_depths cs depth)"

text \<open>The nesting depth of a text: opening braces minus closing braces.  The brace that
  matches an opening brace is the first position after it at which the depth of the text
  read so far is back at 0.\<close>

definition brace_depth :: "pystr \<Rightarrow> int" where
  "brace_depth s = int (length (filter (\<lambda>c. c = 123) s)) - int (length (filter (\<lambda>c. c = 125) s))"

subsection \<open>Method locator\<close>

text \<open>The optional parenthesised argument list \<open>(?:\([^)]*\))?\<close> and the annotation
  prefix \<open>(?:@\w+(?:\([^)]*\))?\s*)*\<close> shared by the two signature patterns.\<close>

definition rx_args :: rx where
  "rx_args = seqs [Lit 40, Star (Cls (\<lambda>c. c \<noteq> 41)), Lit 41]"

definition rx_annotations :: rx where
  "rx_annotations = Star (seqs [Lit 64, plus rx_w, opt rx_args, Star rx_s])"

definition rx_throws :: rx where
  "rx_throws = opt (seqs [lits ''throws'', plus rx_s,
                          plus (Cls (\<lambda>c. is_word c \<or> c = 44 \<or> isspace c))])"

definition method_pattern :: rx where
  "method_pattern = seqs
     [rx_annotations,
      opt (alts [lits ''public'', lits ''private'', lits ''protected'']),
      Star rx_s,
      opt (seqs [lits ''static'', plus rx_s]),
      opt (seqs [lits ''final'', plus rx_s]),
      plus (Cls (\<lambda>c. is_word c \<or> c \<in> set [60, 62, 44, 91, 93] \<or> isspace c)),
      plus rx_s,
      Grp (plus rx_w),
      Star rx_s,
      rx_args,
      Star rx_s,
      rx_throws,
      Star rx_s,
      Lit 123]"

definition test_method_pattern :: rx where
  "test_method_pattern = seqs
     [lits ''@Test'',
      Star rx_s,
      opt rx_args,
      Star rx_s,
      rx_annotations,
      opt (alts [lits ''public'', lits ''private'', lits ''protected'']),
      Star rx_s,
      opt (seqs [lits ''void'', plus rx_s]),
      Grp (plus rx_w),
      Star rx_s,
      rx_args,
      Star rx_s,
      rx_throws,
      Star rx_s,
      Lit 123]"

text \<open>
  The loop shared by \<open>_extract_methods\<close> and \<open>_extract_test_methods\<close>: for each match,
  the name is group 1, \<open>start = match.end() - 1\<close> is the position of the brace that
  ends the match, and the body is the block extracted there.
\<close>

definition locate :: "rx \<Rightarrow> pystr \<Rightarrow> (pystr \<times> pystr) list" where
  "locate pattern content =
     foldl (\<lambda>ms m.
              let name = group1 (snd m);
                  start = (length content - length (rest (snd m))) - 1;
                  body = extract_block content start
              in dict_set ms name body)
           [] (finditer pattern content)"

definition extract_methods :: "pystr \<Rightarrow> (pystr \<times> pystr) list" where
  "extract_methods content = locate method_pattern content"

definition extract_test_methods :: "pystr \<Rightarrow> (pystr \<times> pystr) list" where
  "extract_test_methods content = locate test_method_pattern content"

subsection \<open>Construction\<close>

text \<open>The fields \<open>__init__\<close> sets from the text read from the file.\<close>

record JavaTestAnalyzer =
  content :: pystr
  lines :: "pystr list"
  methods :: "(pystr \<times> pystr) list"
  test_methods :: "(pystr \<times> pystr) list"

definition init :: "pystr \<Rightarrow> JavaTestAnalyzer" where
  "init src =
     \<lparr>content = src,
      lines = split_nl src,
      methods = extract_methods src,
      test_methods = extract_test_methods src\<rparr>"


section \<open>Size metrics\<close>

record SizeMetrics =
  total_lines :: int
  logical_loc :: int
  blank_lines :: int
  comment_lines :: int
  comment_ratio :: real

definition is_comment_line :: "pystr \<Rightarrow> bool" where
  "is_comment_line line =
     (let stripped = strip line
      in startswith stripped (str ''//'') \<or> startswith stripped (str ''/*'') \<or>
         startswith stripped (str ''*'') \<or> startswith stripped (str ''*/''))"

definition analyze_size :: "JavaTestAnalyzer \<Rightarrow> SizeMetrics" where
  "analyze_size self =
     (let total = int (length (lines self));
          blank = int (length (filter (\<lambda>l. strip l = []) (lines self)));
          comment = int (length (filter is_comment_line (lines self)));
          logical = total - blank - comment
      in \<lparr>total_lines = total,
          logical_loc = logical,
          blank_lines = blank,
          comment_lines = comment,
          comment_ratio =
            (if total > 0 then py_round1 (real_of_int comment / real_of_int total * 100)
             else 0)\<rparr>)"


section \<open>Complexity metrics\<close>

record ComplexityMetrics =
  cyclomatic_complexity :: "(pystr \<times> int) list"
  avg_cyclomatic :: real
  max_cyclomatic :: int
  cognitive_complexity :: "(pystr \<times> int) list"
  avg_cognitive :: real
  max_cognitive :: int
  maintainability_index :: real

text \<open>The nine patterns of \<open>_calc_cyclomatic\<close>, in the order of the source:
  \<open>\bif\b\<close>, \<open>\belse\s+if\b\<close>, \<open>\bfor\b\<close>, \<open>\bwhile\b\<close>, \<open>\bcase\b\<close>, \<open>\bcatch\b\<close>,
  \<open>\b\?\s*:\<close>, \<open>\b&&\b\<close>, \<open>\b\|\|\b\<close>.\<close>

definition cyclomatic_patterns :: "rx list" where
  "cyclomatic_patterns =
     [seqs [WordB, lits ''if'', WordB],
      seqs [WordB, lits ''else'', plus rx_s, lits ''if'', WordB],
      seqs [WordB, lits ''for'', WordB],
      seqs [WordB, lits ''while'', WordB],
      seqs [WordB, lits ''case'', WordB],
      seqs [WordB, lits ''catch'', WordB],
      seqs [WordB, lits ''?'', Star rx_s, lits '':''],
      seqs [WordB, lits ''&&'', WordB],
      seqs [WordB, lits ''||'', WordB]]"

definition calc_cyclomatic :: "pystr \<Rightarrow> int" where
  "calc_cyclomatic code =
     foldl (\<lambda>count p. count + findall_count p code) 1 cyclomatic_patterns"

text \<open>One iteration of the loop of \<open>_calc_cognitive\<close> on the pair (score, nesting).\<close>

definition cognitive_step :: "int \<times> int \<Rightarrow> pystr \<Rightarrow> int \<times> int" where
  "cognitive_step sn line =
     (let score = fst sn; nesting = snd sn; stripped = strip line;
          sn1 = (if re_search (seqs [WordB, alts [lits ''if'', lits ''for'', lits ''while'',
                                                  lits ''switch'', lits ''try''], WordB]) stripped
                 then (score + (1 + nesting),
                       if 123 \<in> set stripped then nesting + 1 else nesting)
                 else if re_search (seqs [WordB, alts [lits ''else'', lits ''catch'',
                                                       lits ''finally''], WordB]) stripped
                 then (score + 1, nesting)
                 else (score, nesting));
          nesting2 = (if stripped = [125] then max 0 (snd sn1 - 1) else snd sn1)
      in (fst sn1 + findall_count (alts [lits ''&&'', lits ''||'']) stripped, nesting2))"

definition calc_cognitive :: "pystr \<Rightarrow> int" where
  "calc_cognitive code = fst (foldl cognitive_step (0, 0) (split_nl code))"

text \<open>\<open>max(values)\<close> of a list that is not empty.\<close>

definition py_max :: "int list \<Rightarrow> int" where
  "py_max values = foldl max (hd values) (tl values)"

text \<open>
  \<open>_analyze_complexity\<close>.  It reads \<open>logical_loc\<close> from the size record that
  \<open>_analyze_size\<close> has filled in before.  The calls of \<open>math.log2\<close> and \<open>math.log\<close> are
  evaluated in the order of the source expression; the first one that raises ends the
  function.
\<close>

definition analyze_complexity :: "JavaTestAnalyzer \<Rightarrow> SizeMetrics \<Rightarrow> error + ComplexityMetrics" where
  "analyze_complexity self sz =
     (let cyc = foldl (\<lambda>d nb. dict_set d (fst nb) (calc_cyclomatic (snd nb))) [] (methods self);
          cog = foldl (\<lambda>d nb. dict_set d (fst nb) (calc_cognitive (snd nb))) [] (methods self);
          avg_cyc = (if cyc \<noteq> [] then
                       py_round1 (real_of_int (sum_list (map snd cyc)) / real (length cyc))
                     else 0);
          max_cyc = (if cyc \<noteq> [] then py_max (map snd cyc) else 0);
          avg_cog = (if cog \<noteq> [] then
                       py_round1 (real_of_int (sum_list (map snd cog)) / real (length cog))
                     else 0);
          max_cog = (if cog \<noteq> [] then py_max (map snd cog) else 0);
          loc = max (logical_loc sz) 1;
          avg_cc = max avg_cyc 1
      in case math_log2 (real (max (length (remdups (py_split (content self)))) 1)) of
           Inl e \<Rightarrow> Inl e
         | Inr l2 \<Rightarrow>
            (let halstead_volume = real_of_int loc * l2
             in case math_log halstead_volume of
                  Inl e \<Rightarrow> Inl e
                | Inr lv \<Rightarrow>
                   (case math_log (real_of_int loc) of
                      Inl e \<Rightarrow> Inl e
                    | Inr ll \<Rightarrow>
                       (let mi = 171 - 5.2 * lv - 0.23 * avg_cc - 16.2 * ll
                        in Inr \<lparr>cyclomatic_complexity = cyc,
                                avg_cyclomatic = avg_cyc,
                                max_cyclomatic = max_cyc,
                                cognitive_complexity = cog,
                                avg_cognitive = avg_cog,
                                max_cognitive = max_cog,
                                maintainability_index =
                                  py_round1 (max 0 (min 100 (mi * 100 / 171)))\<rparr>))))"


section \<open>Test metrics\<close>

record TestMetrics =
  test_method_count :: int
  nested_class_count :: int
  assert_count :: int
  asserts_per_test :: real
  long_tests :: "pystr list"
  long_test_count :: int
  aaa_organized_count :: int
  aaa_percentage :: real
  tests_with_exception_handling :: int
  exception_handling_percentage :: real
  exception_handling_needed :: bool

definition count_assertions :: "JavaTestAnalyzer \<Rightarrow> int" where
  "count_assertions self =
     foldl (\<lambda>count p. count + findall_count p (content self)) 0
       [seqs [lits ''assert'', plus rx_w, Star rx_s, Lit 40],
        seqs [lits ''.andExpect'', Star rx_s, Lit 40],
        seqs [lits ''assertThat'', Star rx_s, Lit 40],
        seqs [lits ''verify'', Star rx_s, Lit 40],
        seqs [lits ''.is'', plus rx_w, Star rx_s, Lit 40]]"

text \<open>The test of \<open>_count_aaa_organized\<close> on one method body: a phase comment
  (case-insensitive), or the three structural signals together.\<close>

definition aaa_organized :: "pystr \<Rightarrow> bool" where
  "aaa_organized body =
     (let has_aaa = re_search (seqs [lits ''//'', Star rx_s,
                       alts [ilits ''arrange'', ilits ''act'', ilits ''assert'',
                             ilits ''given'', ilits ''when'', ilits ''then'']]) body;
          has_structure =
            (re_search (alts [seqs [lits ''='', Star rx_s, lits ''new'', plus rx_s],
                              lits ''@Autowired'', lits ''mock(''])  body \<and>
             re_search (seqs [Lit 46, alts [lits ''perform'', lits ''execute'', lits ''call'',
                                lits ''invoke'', lits ''get'', lits ''post'', lits ''put'']]) body \<and>
             re_search (alts [lits ''assert'', lits ''verify'', lits ''andExpect'']) body)
      in has_aaa \<or> has_structure)"

definition count_aaa_organized :: "JavaTestAnalyzer \<Rightarrow> int" where
  "count_aaa_organized self =
     int (length (filter (\<lambda>nb. aaa_organized (snd nb)) (test_methods self)))"

text \<open>The number of lines of a body that are not blank.\<close>

definition nonblank_line_count :: "pystr \<Rightarrow> int" where
  "nonblank_line_count body = int (length (filter (\<lambda>l. strip l \<noteq> []) (split_nl body)))"

definition has_exception_handling :: "pystr \<Rightarrow> bool" where
  "has_exception_handling body =
     re_search (alts [seqs [lits ''throws'', plus rx_s, plus rx_w],
                      seqs [lits ''try'', Star rx_s, Lit 123],
                      lits ''assertThrows'']) body"

definition analyze_tests :: "JavaTestAnalyzer \<Rightarrow> TestMetrics" where
  "analyze_tests self =
     (let n = int (length (test_methods self));
          asserts = count_assertions self;
          long = map (\<lambda>nb. fst nb @ str '' ('' @ str_int (nonblank_line_count (snd nb))
                                @ str '' lines)'')
                     (filter (\<lambda>nb. nonblank_line_count (snd nb) > 20) (test_methods self));
          aaa = count_aaa_organized self;
          exc = int (length (filter (\<lambda>nb. has_exception_handling (snd nb)) (test_methods self)))
      in \<lparr>test_method_count = n,
          nested_class_count = findall_count (lits ''@Nested'') (content self),
          assert_count = asserts,
          asserts_per_test = py_round1 (real_of_int asserts / real_of_int (max n 1)),
          long_tests = long,
          long_test_count = int (length long),
          aaa_organized_count = aaa,
          aaa_percentage = py_round1 (real_of_int aaa / real_of_int (max n 1) * 100),
          tests_with_exception_handling = exc,
          exception_handling_percentage = py_round1 (real_of_int exc / real_of_int (max n 1) * 100),
          exception_handling_needed =
            re_search (alts [lits ''.perform('', lits ''mockMvc'', lits ''WebTestClient'',
                             lits ''RestTemplate'',
                             seqs [lits ''throws'', plus rx_s, lits ''Exception'']])
                      (content self)\<rparr>)"


section \<open>Duplication metrics\<close>

record DuplicationMetrics =
  duplicate_segments :: int
  duplicate_lines :: int
  duplicate_percentage :: real
  duplicated_blocks :: "pystr list"

text \<open>The filter of \<open>_analyze_duplication\<close> on one line of the file.\<close>

definition is_meaningful :: "pystr \<Rightarrow> bool" where
  "is_meaningful line =
     (let stripped = strip line
      in length stripped > 15 \<and>
         \<not> is_comment_line line \<and>
         \<not> startswith stripped (str ''import'') \<and>
         \<not> startswith stripped (str ''package'') \<and>
         stripped \<notin> set [str ''{'', str ''}'', str ''});'', []])"

text \<open>The list \<open>meaningful_lines\<close>: pairs of the 1-based line number and the stripped text.\<close>

definition meaningful_lines :: "JavaTestAnalyzer \<Rightarrow> (int \<times> pystr) list" where
  "meaningful_lines self =
     map (\<lambda>il. (int (fst il) + 1, strip (snd il)))
         (filter (\<lambda>il. is_meaningful (snd il)) (enumerate 0 (lines self)))"

definition analyze_duplication :: "JavaTestAnalyzer \<Rightarrow> DuplicationMetrics" where
  "analyze_duplication self =
     (let line_counts = Counter (map snd (meaningful_lines self));
          duplicates = filter (\<lambda>lc. snd lc > 1) line_counts;
          dup_lines = sum_list (map (\<lambda>lc. snd lc - 1) duplicates)
      in \<lparr>duplicate_segments = int (length duplicates),
          duplicate_lines = dup_lines,
          duplicate_percentage =
            py_round1 (real_of_int dup_lines
                        / real_of_int (max (int (length (meaningful_lines self))) 1) * 100),
          duplicated_blocks = take 5 (map fst duplicates)\<rparr>)"


section \<open>Code-smell metrics: dead code\<close>

text \<open>Smell and violation entries are dictionaries from strings to strings or integers.\<close>

datatype pyval = PStr pystr | PInt int

type_synonym pydict = "(pystr \<times> pyval) list"

text \<open>The list field \<open>code_smells\<close> of the class is called \<open>smells\<close> here, because
  \<open>AllMetrics\<close> has a field \<open>code_smells\<close> of its own.\<close>

record CodeSmellMetrics =
  code_smell_count :: int
  smells :: "pydict list"
  todo_fixme_count :: int
  wildcard_imports :: int
  dead_code_percentage :: real
  dead_code_items :: "pystr list"

definition lit_str :: "pystr \<Rightarrow> rx" where
  "lit_str s = foldr (\<lambda>c r. Seq (Lit c) r) s Eps"

text \<open>\<open>_detect_dead_code\<close>: the private methods whose name is followed by an opening
  parenthesis at most once in the file, then the private fields whose name occurs as a
  whole word at most once.\<close>

definition detect_dead_code :: "JavaTestAnalyzer \<Rightarrow> pystr list" where
  "detect_dead_code self =
     (let private_methods =
            findall_group (seqs [lits ''private'', plus rx_s, plus rx_w, plus rx_s,
                                 Grp (plus rx_w), Star rx_s, Lit 40]) (content self);
          dead_methods =
            map (\<lambda>m. str ''Unused method: '' @ m)
              (filter (\<lambda>m. findall_count (seqs [WordB, lit_str m, Star rx_s, Lit 40])
                                           (content self) \<le> 1)
                      private_methods);
          private_fields =
            findall_group (seqs [lits ''private'', plus rx_s,
                                 opt (seqs [lits ''final'', plus rx_s]),
                                 plus (Cls (\<lambda>c. is_word c \<or> c \<in> set [60, 62, 44] \<or> isspace c)),
                                 plus rx_s, Grp (plus rx_w), Star rx_s,
                                 Cls (\<lambda>c. c = 59 \<or> c = 61)]) (content self);
          dead_fields =
            map (\<lambda>f. str ''Unused field: '' @ f)
              (filter (\<lambda>f. findall_count (seqs [WordB, lit_str f, WordB]) (content self) \<le> 1)
                      private_fields)
      in dead_methods @ dead_fields)"

text \<open>The dead-code statements of \<open>_analyze_code_smells\<close> (the two assignments after the
  call of \<open>_detect_dead_code\<close>), as an update of the record \<open>m\<close>.\<close>

definition analyze_dead_code :: "JavaTestAnalyzer \<Rightarrow> CodeSmellMetrics \<Rightarrow> CodeSmellMetrics" where
  "analyze_dead_code self m =
     (let dead_items = detect_dead_code self
      in m\<lparr>dead_code_items := dead_items,
            dead_code_percentage :=
              py_round1 (real (length dead_items)
                          / real_of_int (max (int (length (methods self))) 1) * 100)\<rparr>)"


section \<open>The report and the score aggregator\<close>

record ConventionMetrics =
  follows_conventions :: bool
  convention_violations :: "pydict list"
  violation_count :: int

record FrameworkMetrics =
  framework_keyword_violations :: int
  invalid_assertions :: "pystr list"
  non_framework_methods :: "pystr list"
  valid_framework_assertions :: bool

record TypeMetrics =
  type_errors :: int
  undefined_variables :: "pystr list"
  type_annotation_errors :: int
  generic_type_misuses :: "pystr list"

record SyntaxMetrics =
  syntax_errors :: int
  syntax_error_details :: "pydict list"
  linting_violations :: int
  linting_details :: "pydict list"

record DesignPatternMetrics =
  adheres_to_patterns :: bool
  patterns_detected :: "pystr list"
  pattern_violations :: "pystr list"

text \<open>The fields of \<open>AllMetrics\<close> carry the suffix \<open>_m\<close>: \<open>size\<close> is a constant of the
  logic, and \<open>code_smells\<close> is also a field of \<open>CodeSmellMetrics\<close>.\<close>

record AllMetrics =
  file_name :: pystr
  size_m :: SizeMetrics
  complexity_m :: ComplexityMetrics
  test_m :: TestMetrics
  duplication_m :: DuplicationMetrics
  code_smells_m :: CodeSmellMetrics
  conventions_m :: ConventionMetrics
  framework_m :: FrameworkMetrics
  types_m :: TypeMetrics
  syntax_m :: SyntaxMetrics
  design_patterns_m :: DesignPatternMetrics

text \<open>The record the dataclass defaults give: what \<open>AllMetrics(file_name=name)\<close> builds
  before any pass has run.\<close>

definition default_metrics :: "pystr \<Rightarrow> AllMetrics" where
  "default_metrics name =
     \<lparr>file_name = name,
      size_m = \<lparr>total_lines = 0, logical_loc = 0, blank_lines = 0, comment_lines = 0,
                comment_ratio = 0\<rparr>,
      complexity_m = \<lparr>cyclomatic_complexity = [], avg_cyclomatic = 0, max_cyclomatic = 0,
                      cognitive_complexity = [], avg_cognitive = 0, max_cognitive = 0,
                      maintainability_index = 0\<rparr>,
      test_m = \<lparr>test_method_count = 0, nested_class_count = 0, assert_count = 0,
                asserts_per_test = 0, long_tests = [], long_test_count = 0,
                aaa_organized_count = 0, aaa_percentage = 0,
                tests_with_exception_handling = 0, exception_handling_percentage = 0,
                exception_handling_needed = False\<rparr>,
      duplication_m = \<lparr>duplicate_segments = 0, duplicate_lines = 0, duplicate_percentage = 0,
                       duplicated_blocks = []\<rparr>,
      code_smells_m = \<lparr>code_smell_count = 0, smells = [], todo_fixme_count = 0,
                       wildcard_imports = 0, dead_code_percentage = 0, dead_code_items = []\<rparr>,
      conventions_m = \<lparr>follows_conventions = True, convention_violations = [],
                       violation_count = 0\<rparr>,
      framework_m = \<lparr>framework_keyword_violations = 0, invalid_assertions = [],
                     non_framework_methods = [], valid_framework_assertions = True\<rparr>,
      types_m = \<lparr>type_errors = 0, undefined_variables = [], type_annotation_errors = 0,
                 generic_type_misuses = []\<rparr>,
      syntax_m = \<lparr>syntax_errors = 0, syntax_error_details = [], linting_violations = 0,
                  linting_details = []\<rparr>,
      design_patterns_m = \<lparr>adheres_to_patterns = True, patterns_detected = [],
                           pattern_violations = []\<rparr>\<rparr>"

text \<open>The amount each category of \<open>calculate_quality_score\<close> subtracts from the score,
  in the order of the source.\<close>

definition complexity_deduction :: "AllMetrics \<Rightarrow> real" where
  "complexity_deduction metrics =
     (if avg_cyclomatic (complexity_m metrics) > 10
      then min 20 ((avg_cyclomatic (complexity_m metrics) - 10) * 2) else 0)"

definition smell_deduction :: "AllMetrics \<Rightarrow> real" where
  "smell_deduction metrics = real_of_int (min 15 (code_smell_count (code_smells_m metrics) * 3))"

definition duplication_deduction :: "AllMetrics \<Rightarrow> real" where
  "duplication_deduction metrics = min 15 (duplicate_percentage (duplication_m metrics))"

definition convention_deduction :: "AllMetrics \<Rightarrow> real" where
  "convention_deduction metrics = real_of_int (min 10 (violation_count (conventions_m metrics)))"

definition long_test_deduction :: "AllMetrics \<Rightarrow> real" where
  "long_test_deduction metrics = real_of_int (min 10 (long_test_count (test_m metrics) * 2))"

definition aaa_deduction :: "AllMetrics \<Rightarrow> real" where
  "aaa_deduction metrics = (if aaa_percentage (test_m metrics) < 50 then 10 else 0)"

definition syntax_deduction :: "AllMetrics \<Rightarrow> real" where
  "syntax_deduction metrics = real_of_int (min 10 (syntax_errors (syntax_m metrics) * 5))"

definition framework_deduction :: "AllMetrics \<Rightarrow> real" where
  "framework_deduction metrics =
     real_of_int (min 10 (framework_keyword_violations (framework_m metrics) * 2))"

definition calculate_quality_score :: "AllMetrics \<Rightarrow> int" where
  "calculate_quality_score metrics =
     (let score = 100;
          score = score - complexity_deduction metrics;
          score = score - smell_deduction metrics;
          score = score - duplication_deduction metrics;
          score = score - convention_deduction metrics;
          score = score - long_test_deduction metrics;
          score = score - aaa_deduction metrics;
          score = score - syntax_deduction metrics;
          score = score - framework_deduction metrics
      in max 0 (min 100 (py_int score)))"


text \<open>A number with at most one decimal place: ten times it is an integer.\<close>

definition one_decimal :: "real \<Rightarrow> bool" where
  "one_decimal x = (of_int \<lfloor>x * 10\<rfloor> = x * 10)"


section \<open>Facts about the Python values\<close>

lemma split_acc_nonempty: "split_acc cur s \<noteq> []"
  by (induction cur s rule: split_acc.induct) auto

lemma split_nl_nonempty: "split_nl s \<noteq> []"
  by (simp add: split_nl_def split_acc_nonempty)

lemma comment_line_not_blank: "is_comment_line l \<Longrightarrow> strip l \<noteq> []"
  by (auto simp: is_comment_line_def Let_def str_def startswith_def)

lemma length_filter_partition:
  "length (filter P xs) + length (filter Q xs) + length (filter (\<lambda>x. \<not> P x \<and> \<not> Q x) xs)
     = length xs"
  if "\<And>x. Q x \<Longrightarrow> \<not> P x"
  using that by (induction xs) auto

lemma lines_init: "lines (init s) = split_nl s"
  by (simp add: init_def)

lemma content_init: "content (init s) = s"
  by (simp add: init_def)

lemma methods_init: "methods (init s) = extract_methods s"
  by (simp add: init_def)

lemma test_methods_init: "test_methods (init s) = extract_test_methods s"
  by (simp add: init_def)

subsection \<open>Rounding to one decimal place\<close>

lemma py_round1_cases:
  obtains "py_round1 x = of_int \<lfloor>x * 10\<rfloor> / 10"
  | "py_round1 x = of_int (\<lfloor>x * 10\<rfloor> + 1) / 10" "of_int \<lfloor>x * 10\<rfloor> < x * 10"
proof -
  define f where "f = \<lfloor>x * 10\<rfloor>"
  define d where "d = x * 10 - of_int f"
  have r: "py_round1 x = of_int (if d < 1 / 2 then f else if 1 / 2 < d then f + 1
                 else if even f then f else f + 1) / 10"
    unfolding py_round1_def Let_def f_def d_def ..
  have pos: "of_int f < x * 10" if "0 < d"
    using that unfolding d_def by linarith
  consider "d < 1 / 2" | "1 / 2 < d" | "d = 1 / 2" "even f" | "d = 1 / 2" "odd f"
    by fastforce
  then show thesis
  proof cases
    case 1
    then have "py_round1 x = of_int f / 10" unfolding r by (simp only: if_True)
    then show thesis unfolding f_def by (rule that(1))
  next
    case 2
    then have "\<not> d < 1 / 2" by linarith
    with 2 have "py_round1 x = of_int (f + 1) / 10" unfolding r by (simp only: if_True if_False)
    moreover have "of_int f < x * 10" using 2 by (intro pos) linarith
    ultimately show thesis unfolding f_def by (rule that(2))
  next
    case 3
    then have "\<not> d < 1 / 2" "\<not> 1 / 2 < d" by linarith+
    with 3 have "py_round1 x = of_int f / 10" unfolding r by (simp only: if_True if_False)
    then show thesis unfolding f_def by (rule that(1))
  next
    case 4
    then have "\<not> d < 1 / 2" "\<not> 1 / 2 < d" by linarith+
    with 4 have "py_round1 x = of_int (f + 1) / 10" unfolding r by (simp only: if_True if_False)
    moreover have "of_int f < x * 10" using 4 by (intro pos) linarith
    ultimately show thesis unfolding f_def by (rule that(2))
  qed
qed

lemma py_round1_near:
  obtains k :: int where "py_round1 x = of_int k / 10" "\<bar>of_int k - x * 10\<bar> \<le> 1 / 2"
proof -
  define f where "f = \<lfloor>x * 10\<rfloor>"
  define d where "d = x * 10 - of_int f"
  have r: "py_round1 x = of_int (if d < 1 / 2 then f else if 1 / 2 < d then f + 1
                 else if even f then f else f + 1) / 10"
    unfolding py_round1_def Let_def f_def d_def ..
  have d0: "0 \<le> d" "d < 1"
    unfolding d_def f_def by linarith+
  have lo: "\<bar>of_int f - x * 10\<bar> \<le> 1 / 2" if "d \<le> 1 / 2"
    using that d0 unfolding d_def by linarith
  have hi: "\<bar>of_int (f + 1) - x * 10\<bar> \<le> 1 / 2" if "1 / 2 \<le> d"
    using that d0 unfolding d_def by simp
  consider "d < 1 / 2" | "1 / 2 < d" | "d = 1 / 2" "even f" | "d = 1 / 2" "odd f"
    by fastforce
  then show thesis
  proof cases
    case 1
    then have "py_round1 x = of_int f / 10" unfolding r by (simp only: if_True)
    moreover have "\<bar>of_int f - x * 10\<bar> \<le> 1 / 2" using 1 by (intro lo) simp
    ultimately show thesis by (rule that)
  next
    case 2
    then have "\<not> d < 1 / 2" by linarith
    with 2 have "py_round1 x = of_int (f + 1) / 10" unfolding r by (simp only: if_True if_False)
    moreover have "\<bar>of_int (f + 1) - x * 10\<bar> \<le> 1 / 2" using 2 by (intro hi) simp
    ultimately show thesis by (rule that)
  next
    case 3
    then have "\<not> d < 1 / 2" "\<not> 1 / 2 < d" by linarith+
    with 3 have "py_round1 x = of_int f / 10" unfolding r by (simp only: if_True if_False)
    moreover have "\<bar>of_int f - x * 10\<bar> \<le> 1 / 2" using 3 by (intro lo) simp
    ultimately show thesis by (rule that)
  next
    case 4
    then have "\<not> d < 1 / 2" "\<not> 1 / 2 < d" by linarith+
    with 4 have "py_round1 x = of_int (f + 1) / 10" unfolding r by (simp only: if_True if_False)
    moreover have "\<bar>of_int (f + 1) - x * 10\<bar> \<le> 1 / 2" using 4 by (intro hi) simp
    ultimately show thesis by (rule that)
  qed
qed

text \<open>A rounded value is at most one twentieth away from the value rounded.\<close>

lemma py_round1_error: "\<bar>py_round1 x - x\<bar> \<le> 1 / 20"
proof -
  obtain k :: int where k: "py_round1 x = of_int k / 10" "\<bar>of_int k - x * 10\<bar> \<le> 1 / 2"
    by (rule py_round1_near)
  have "\<bar>py_round1 x - x\<bar> = \<bar>of_int k - x * 10\<bar> / 10"
    unfolding k(1) by (simp add: field_simps abs_if)
  with k(2) show ?thesis by simp
qed

lemma py_round1_zero: "py_round1 0 = 0"
  by (simp add: py_round1_def)

lemma py_round1_lower: "of_int a / 10 \<le> x \<Longrightarrow> of_int a / 10 \<le> py_round1 x"
proof -
  assume "of_int a / 10 \<le> x"
  then have "of_int a \<le> x * 10" by simp
  then have "a \<le> \<lfloor>x * 10\<rfloor>" by (simp add: le_floor_iff)
  then have "(of_int a :: real) \<le> of_int \<lfloor>x * 10\<rfloor>" by simp
  then show ?thesis
    by (cases x rule: py_round1_cases) (simp_all add: divide_le_cancel)
qed

lemma py_round1_upper: "x \<le> of_int b / 10 \<Longrightarrow> py_round1 x \<le> of_int b / 10"
proof -
  assume "x \<le> of_int b / 10"
  then have le: "x * 10 \<le> of_int b" by simp
  show ?thesis
  proof (cases x rule: py_round1_cases)
    case 1
    have "of_int \<lfloor>x * 10\<rfloor> \<le> x * 10" by simp
    with le have "(of_int \<lfloor>x * 10\<rfloor> :: real) \<le> of_int b" by linarith
    with 1 show ?thesis by (simp add: divide_le_cancel)
  next
    case 2
    from 2(2) le have "(of_int \<lfloor>x * 10\<rfloor> :: real) < of_int b" by linarith
    then have "\<lfloor>x * 10\<rfloor> < b" by simp
    then have "\<lfloor>x * 10\<rfloor> + 1 \<le> b" by simp
    then have "(of_int (\<lfloor>x * 10\<rfloor> + 1) :: real) \<le> of_int b" by (simp only: of_int_le_iff)
    with 2(1) show ?thesis by (simp add: divide_le_cancel)
  qed
qed

lemma py_round1_range: "0 \<le> x \<Longrightarrow> x \<le> 100 \<Longrightarrow> 0 \<le> py_round1 x \<and> py_round1 x \<le> 100"
  using py_round1_lower [of 0 x] py_round1_upper [of x 1000] by simp

lemma py_round1_nonneg: "0 \<le> x \<Longrightarrow> 0 \<le> py_round1 x"
  using py_round1_lower [of 0 x] by simp

lemma one_decimal_round: "one_decimal (py_round1 x)"
  by (cases x rule: py_round1_cases) (simp_all add: one_decimal_def)

lemma ratio_range:
  assumes "0 \<le> a" "a \<le> b"
  shows "0 \<le> real_of_int a / real_of_int (max b 1) * 100"
    and "real_of_int a / real_of_int (max b 1) * 100 \<le> 100"
proof -
  define m where "m = max b 1"
  have am: "real_of_int a \<le> real_of_int m" using assms unfolding m_def by simp
  have mpos: "0 < real_of_int m" unfolding m_def by simp
  have a0: "0 \<le> real_of_int a" using assms by simp
  from am mpos have "real_of_int a / real_of_int m \<le> 1"
    by (simp add: divide_le_eq_1_pos)
  then have "real_of_int a / real_of_int m * 100 \<le> 1 * 100"
    by (intro mult_right_mono) simp_all
  then have "real_of_int a / real_of_int m * 100 \<le> 100"
    by (simp only: mult_1)
  then show "real_of_int a / real_of_int (max b 1) * 100 \<le> 100"
    unfolding m_def .
  from a0 mpos have "0 \<le> real_of_int a / real_of_int m"
    by (simp add: divide_nonneg_pos)
  then have "0 \<le> real_of_int a / real_of_int m * 100"
    by (rule mult_nonneg_nonneg) simp
  then show "0 \<le> real_of_int a / real_of_int (max b 1) * 100"
    unfolding m_def .
qed

lemma percent_range:
  assumes "0 \<le> a" "a \<le> b"
  shows "0 \<le> py_round1 (real_of_int a / real_of_int (max b 1) * 100)
       \<and> py_round1 (real_of_int a / real_of_int (max b 1) * 100) \<le> 100"
  by (rule py_round1_range) (rule ratio_range [OF assms])+


subsection \<open>Counter\<close>

lemma counter_add_keys: "fst ` set (counter_add c k) = insert k (fst ` set c)"
  by (induction c k rule: counter_add.induct) auto

lemma counter_add_distinct:
  "distinct (map fst c) \<Longrightarrow> distinct (map fst (counter_add c k))"
  by (induction c k rule: counter_add.induct) (auto simp: counter_add_keys)

lemma counter_add_map_of:
  "map_of (counter_add c k) k' =
     (if k' = k then Some (case map_of c k of None \<Rightarrow> 1 | Some n \<Rightarrow> n + 1) else map_of c k')"
  by (induction c k rule: counter_add.induct) auto

lemma foldl_counter_add:
  "distinct (map fst c) \<Longrightarrow>
   distinct (map fst (foldl counter_add c xs)) \<and>
   map_of (foldl counter_add c xs) k =
     (case map_of c k of
        None \<Rightarrow> if k \<in> set xs then Some (int (count_list xs k)) else None
      | Some n \<Rightarrow> Some (n + int (count_list xs k)))"
proof (induction xs arbitrary: c)
  case Nil
  then show ?case by (simp split: option.splits)
next
  case (Cons x xs)
  from Cons.IH [OF counter_add_distinct [OF Cons.prems], of x]
  show ?case
    by (auto simp: counter_add_map_of split: option.splits)
qed

lemma Counter_distinct: "distinct (map fst (Counter xs))"
  using foldl_counter_add [of "[]" xs] by (simp add: Counter_def)

lemma Counter_map_of:
  "map_of (Counter xs) k = (if k \<in> set xs then Some (int (count_list xs k)) else None)"
  using foldl_counter_add [of "[]" xs k] by (simp add: Counter_def)

lemma Counter_set: "set (Counter xs) = (\<lambda>t. (t, int (count_list xs t))) ` set xs"
proof -
  have "(k, n) \<in> set (Counter xs) \<longleftrightarrow> (k, n) \<in> (\<lambda>t. (t, int (count_list xs t))) ` set xs" for k n
    using map_of_eq_Some_iff [OF Counter_distinct, of xs k n]
    by (auto simp: Counter_map_of split: if_splits)
  then show ?thesis by auto
qed

lemma duplicate_sum:
  "sum_list (map (\<lambda>lc. snd lc - 1) (filter (\<lambda>lc. snd lc > 1) (Counter xs)))
     = (\<Sum>t \<in> {t \<in> set xs. 2 \<le> count_list xs t}. int (count_list xs t) - 1)"
proof -
  let ?c = "Counter xs"
  let ?f = "\<lambda>t. (t, int (count_list xs t))"
  have d: "distinct (filter (\<lambda>lc. snd lc > 1) ?c)"
    using Counter_distinct [of xs] by (simp add: distinct_map)
  have s: "set (filter (\<lambda>lc. snd lc > 1) ?c) = ?f ` {t \<in> set xs. 2 \<le> count_list xs t}"
    by (auto simp: Counter_set)
  have inj: "inj_on ?f {t \<in> set xs. 2 \<le> count_list xs t}"
    by (rule inj_onI) simp
  have "sum_list (map (\<lambda>lc. snd lc - 1) (filter (\<lambda>lc. snd lc > 1) ?c))
      = sum (\<lambda>lc. snd lc - 1) (set (filter (\<lambda>lc. snd lc > 1) ?c))"
    by (rule sum_list_distinct_conv_sum_set [OF d])
  also have "\<dots> = sum ((\<lambda>lc. snd lc - 1) \<circ> ?f) {t \<in> set xs. 2 \<le> count_list xs t}"
    unfolding s by (rule sum.reindex [OF inj])
  finally show ?thesis by (simp add: comp_def)
qed

lemma count_list_distinct: "distinct xs \<Longrightarrow> count_list xs t \<le> 1"
  by (induction xs) auto

lemma duplicate_sum_range:
  "0 \<le> (\<Sum>t \<in> {t \<in> set xs. 2 \<le> count_list xs t}. int (count_list xs t) - 1)"
  "(\<Sum>t \<in> {t \<in> set xs. 2 \<le> count_list xs t}. int (count_list xs t) - 1) \<le> int (length xs)"
proof -
  let ?S = "{t \<in> set xs. 2 \<le> count_list xs t}"
  show "0 \<le> (\<Sum>t \<in> ?S. int (count_list xs t) - 1)"
    by (rule sum_nonneg) auto
  have "(\<Sum>t \<in> ?S. int (count_list xs t) - 1) \<le> (\<Sum>t \<in> ?S. int (count_list xs t))"
    by (rule sum_mono) simp
  also have "\<dots> \<le> (\<Sum>t \<in> set xs. int (count_list xs t))"
    by (rule sum_mono2) auto
  also have "\<dots> = int (\<Sum>t \<in> set xs. count_list xs t)"
    by simp
  also have "\<dots> = int (length xs)"
    by (simp add: sum_count_set)
  finally show "(\<Sum>t \<in> ?S. int (count_list xs t) - 1) \<le> int (length xs)" .
qed


section \<open>Size analyzer\<close>

text \<open>
  C6.  For every line list, the size analyzer puts each line into exactly one of the
  classes blank, comment and logical: no line is both blank and a comment line, the
  logical count (computed by subtraction) is the number of lines that are neither, the
  three counts add up to \<open>total_lines\<close>, and \<open>logical_loc\<close> is not negative.
\<close>

theorem size_partition:
  "blank_lines (analyze_size self) + comment_lines (analyze_size self)
       + logical_loc (analyze_size self) = total_lines (analyze_size self)
   \<and> 0 \<le> logical_loc (analyze_size self)
   \<and> logical_loc (analyze_size self)
       = int (length (filter (\<lambda>l. strip l \<noteq> [] \<and> \<not> is_comment_line l) (lines self)))
   \<and> \<not> (strip l = [] \<and> is_comment_line l)"
proof -
  have part: "length (filter (\<lambda>l. strip l = []) (lines self))
        + length (filter is_comment_line (lines self))
        + length (filter (\<lambda>l. strip l \<noteq> [] \<and> \<not> is_comment_line l) (lines self))
      = length (lines self)"
    by (rule length_filter_partition) (use comment_line_not_blank in blast)
  have disj: "\<not> (strip l = [] \<and> is_comment_line l)"
    using comment_line_not_blank by blast
  from part disj show ?thesis
    by (simp add: analyze_size_def Let_def)
qed

text \<open>The partition on a file of three lines: one logical, one blank, one comment.\<close>

theorem size_partition_witness:
  "blank_lines (analyze_size (init (str ''a\<newline>\<newline>// c''))) = 1
   \<and> comment_lines (analyze_size (init (str ''a\<newline>\<newline>// c''))) = 1
   \<and> logical_loc (analyze_size (init (str ''a\<newline>\<newline>// c''))) = 1
   \<and> total_lines (analyze_size (init (str ''a\<newline>\<newline>// c''))) = 3"
proof -
  have l: "lines (init (str ''a\<newline>\<newline>// c'')) = [[97], [], [47, 47, 32, 99]]"
    by (simp add: init_def str_def split_nl_def)
  have b: "blank_lines (analyze_size (init (str ''a\<newline>\<newline>// c''))) = 1"
    unfolding analyze_size_def Let_def l by (simp add: strip_def isspace_def)
  have c: "comment_lines (analyze_size (init (str ''a\<newline>\<newline>// c''))) = 1"
    unfolding analyze_size_def Let_def l
    by (simp add: is_comment_line_def startswith_def str_def strip_def isspace_def)
  have t: "total_lines (analyze_size (init (str ''a\<newline>\<newline>// c''))) = 3"
    unfolding analyze_size_def Let_def l by simp
  from size_partition [of "init (str ''a\<newline>\<newline>// c'')"] b c t show ?thesis
    by simp
qed

text \<open>
  C10.  For every input text, the empty string included, \<open>total_lines\<close> is at least 1,
  since splitting a string at line feeds gives at least one piece; so the size analyzer
  always takes the \<open>total_lines > 0\<close> branch when it computes the comment ratio.
\<close>

theorem total_lines_positive:
  "1 \<le> total_lines (analyze_size (init src))
   \<and> total_lines (analyze_size (init [])) = 1
   \<and> comment_ratio (analyze_size (init src))
       = py_round1 (real_of_int (comment_lines (analyze_size (init src)))
                     / real_of_int (total_lines (analyze_size (init src))) * 100)"
proof -
  obtain l ls where "split_nl src = l # ls"
    using split_nl_nonempty [of src] by (cases "split_nl src") auto
  then show ?thesis
    by (simp add: analyze_size_def Let_def init_def split_nl_def)
qed


section \<open>Block extractor\<close>

lemma brace_depth_Nil: "brace_depth [] = 0"
  by (simp add: brace_depth_def)

lemma brace_depth_Cons:
  "brace_depth (c # cs) = (if c = 123 then 1 else if c = 125 then - 1 else 0) + brace_depth cs"
  by (simp add: brace_depth_def)

text \<open>The loop started with a positive counter, on a text whose depth first returns to 0
  after \<open>n + 1\<close> characters: it breaks there, on a closing brace, and until then the
  counter is the depth of the text read and stays positive.\<close>

lemma scan_block_match:
  "0 < d \<Longrightarrow> n < length xs \<Longrightarrow> d + brace_depth (take (Suc n) xs) = 0 \<Longrightarrow>
   (\<forall>k<n. d + brace_depth (take (Suc k) xs) \<noteq> 0) \<Longrightarrow>
   scan_block xs i d = Some (i + n + 1) \<and> xs ! n = 125
   \<and> scan_depths xs d = map (\<lambda>k. d + brace_depth (take (Suc k) xs)) [0..<Suc n]
   \<and> (\<forall>k<n. 0 < d + brace_depth (take (Suc k) xs))"
proof (induction xs arbitrary: d n i)
  case Nil
  then show ?case by simp
next
  case (Cons x xs)
  let ?d' = "d + (if x = 123 then 1 else if x = 125 then - 1 else 0)"
  show ?case
  proof (cases n)
    case 0
    with Cons.prems have "x = 125" "d = 1"
      by (auto simp: brace_depth_Cons brace_depth_Nil split: if_splits)
    with 0 show ?thesis by (simp add: brace_depth_Cons brace_depth_Nil)
  next
    case (Suc m)
    from Cons.prems(4) Suc have nz: "?d' \<noteq> 0"
      by (auto simp: brace_depth_Cons brace_depth_Nil dest: spec [of _ 0])
    with Cons.prems(1) have pos: "0 < ?d'" by (auto split: if_splits)
    have m: "m < length xs" using Cons.prems(2) Suc by simp
    have z: "?d' + brace_depth (take (Suc m) xs) = 0"
      using Cons.prems(3) Suc by (simp add: brace_depth_Cons)
    have inter: "\<forall>k<m. ?d' + brace_depth (take (Suc k) xs) \<noteq> 0"
    proof (intro allI impI)
      fix k assume "k < m"
      then have "Suc k < n" using Suc by simp
      with Cons.prems(4) have "d + brace_depth (take (Suc (Suc k)) (x # xs)) \<noteq> 0" by blast
      then show "?d' + brace_depth (take (Suc k) xs) \<noteq> 0"
        by (simp add: brace_depth_Cons)
    qed
    note IH = Cons.IH [OF pos m z inter, of "i + 1"]
    have up: "[0..<Suc (Suc m)] = 0 # map Suc [0..<Suc m]"
      by (metis map_Suc_upt upt_conv_Cons zero_less_Suc)
    have allpos: "\<forall>k<n. 0 < d + brace_depth (take (Suc k) (x # xs))"
    proof (intro allI impI)
      fix k assume k: "k < n"
      show "0 < d + brace_depth (take (Suc k) (x # xs))"
      proof (cases k)
        case 0
        then show ?thesis using pos by (simp add: brace_depth_Cons brace_depth_Nil)
      next
        case (Suc k')
        with k \<open>n = Suc m\<close> have "k' < m" by simp
        with IH have "0 < ?d' + brace_depth (take (Suc k') xs)" by blast
        then show ?thesis using Suc by (simp add: brace_depth_Cons)
      qed
    qed
    have sb: "scan_block (x # xs) i d = scan_block xs (i + 1) ?d'"
      using nz by auto
    have sd: "scan_depths (x # xs) d = ?d' # scan_depths xs ?d'"
      using nz by auto
    have mp: "map (\<lambda>k. d + brace_depth (take (Suc k) (x # xs))) [0..<Suc n]
        = ?d' # map (\<lambda>k. ?d' + brace_depth (take (Suc k) xs)) [0..<Suc m]"
      unfolding Suc up by (simp add: brace_depth_Cons brace_depth_Nil comp_def)
    show ?thesis
      unfolding sb sd mp using IH allpos Suc by simp
  qed
qed

text \<open>The loop started with a positive counter, on a text whose depth never returns
  to 0: it runs to the end without a \<open>break\<close>.\<close>

lemma scan_block_none:
  "0 < d \<Longrightarrow> (\<forall>k<length xs. d + brace_depth (take (Suc k) xs) \<noteq> 0) \<Longrightarrow>
   scan_block xs i d = None"
proof (induction xs arbitrary: d i)
  case Nil
  then show ?case by simp
next
  case (Cons x xs)
  let ?d' = "d + (if x = 123 then 1 else if x = 125 then - 1 else 0)"
  from Cons.prems(2) have nz: "?d' \<noteq> 0"
    by (auto simp: brace_depth_Cons brace_depth_Nil dest: spec [of _ 0])
  with Cons.prems(1) have pos: "0 < ?d'" by (auto split: if_splits)
  have inter: "\<forall>k<length xs. ?d' + brace_depth (take (Suc k) xs) \<noteq> 0"
  proof (intro allI impI)
    fix k assume "k < length xs"
    then have "Suc k < length (x # xs)" by simp
    with Cons.prems(2) have "d + brace_depth (take (Suc (Suc k)) (x # xs)) \<noteq> 0" by blast
    then show "?d' + brace_depth (take (Suc k) xs) \<noteq> 0"
      by (simp add: brace_depth_Cons)
  qed
  have sb: "scan_block (x # xs) i d = scan_block xs (i + 1) ?d'"
    using nz by auto
  show ?case unfolding sb by (rule Cons.IH [OF pos inter])
qed

lemma slice_depth:
  assumes "start < length buf" "buf ! start = 123" "start \<le> k"
  shows "brace_depth (slice buf start (k + 1))
         = 1 + brace_depth (take (k - start) (drop (Suc start) buf))"
proof -
  have "drop start buf = 123 # drop (Suc start) buf"
    using assms(1,2) by (metis Cons_nth_drop_Suc)
  moreover have "k + 1 - start = Suc (k - start)"
    using assms(3) by simp
  ultimately show ?thesis
    by (simp add: slice_def brace_depth_Cons)
qed

lemma scan_open:
  assumes "start < length buf" "buf ! start = 123"
  shows "scan_block (drop start buf) start 0 = scan_block (drop (Suc start) buf) (start + 1) 1"
    and "scan_depths (drop start buf) 0 = 1 # scan_depths (drop (Suc start) buf) 1"
proof -
  have d: "drop start buf = 123 # drop (Suc start) buf"
    using assms by (metis Cons_nth_drop_Suc)
  show "scan_block (drop start buf) start 0 = scan_block (drop (Suc start) buf) (start + 1) 1"
    unfolding d by simp
  show "scan_depths (drop start buf) 0 = 1 # scan_depths (drop (Suc start) buf) 1"
    unfolding d by simp
qed

lemma all_between_upt:
  "(\<forall>k. a < k \<and> k < b \<longrightarrow> P k) = (\<forall>k \<in> set [Suc a..<b]. P k)"
  by auto

text \<open>
  C8.  Let the character at \<open>start\<close> be an opening brace and let \<open>j\<close> be the position of
  its matching closing brace: the first position after \<open>start\<close> at which the depth of
  the text read from \<open>start\<close> is back at 0.  Then the block extractor returns the slice
  from \<open>start\<close> up to and including position \<open>j\<close>, the character at \<open>j\<close> is a closing
  brace, the counter of the loop is at every step the depth of the text read so far, it
  is 0 at the last step, and it is never negative.
\<close>

theorem extract_block_balanced:
  assumes sj: "start < j" and jl: "j < length buf" and ob: "buf ! start = 123"
    and zero: "brace_depth (slice buf start (j + 1)) = 0"
    and first: "\<forall>k. start < k \<and> k < j \<longrightarrow> brace_depth (slice buf start (k + 1)) \<noteq> 0"
  shows "extract_block buf start = slice buf start (j + 1)
     \<and> buf ! j = 125
     \<and> scan_depths (drop start buf) 0
         = map (\<lambda>k. brace_depth (slice buf start (k + 1))) [start..<j + 1]
     \<and> last (scan_depths (drop start buf) 0) = 0
     \<and> (\<forall>d \<in> set (scan_depths (drop start buf) 0). 0 \<le> d)"
proof -
  let ?xs = "drop (Suc start) buf"
  obtain n where j: "j = Suc start + n"
    using sj by (metis less_iff_Suc_add add_Suc)
  have sl: "start < length buf" using sj jl by simp
  have sd: "brace_depth (slice buf start (Suc start + m + 1)) = 1 + brace_depth (take (Suc m) ?xs)"
    for m using slice_depth [OF sl ob, of "Suc start + m"] by simp
  have n: "n < length ?xs" using jl j by simp
  have z: "1 + brace_depth (take (Suc n) ?xs) = 0"
    using zero sd [of n] j by simp
  have inter: "\<forall>k<n. 1 + brace_depth (take (Suc k) ?xs) \<noteq> 0"
  proof (intro allI impI)
    fix k assume k: "k < n"
    then have "start < Suc start + k \<and> Suc start + k < j" using j by simp
    with first have "brace_depth (slice buf start (Suc start + k + 1)) \<noteq> 0" by blast
    then show "1 + brace_depth (take (Suc k) ?xs) \<noteq> 0"
      using sd [of k] by simp
  qed
  have M: "scan_block ?xs (start + 1) 1 = Some (start + 1 + n + 1) \<and> ?xs ! n = 125
     \<and> scan_depths ?xs 1 = map (\<lambda>k. 1 + brace_depth (take (Suc k) ?xs)) [0..<Suc n]
     \<and> (\<forall>k<n. 0 < 1 + brace_depth (take (Suc k) ?xs))"
    by (rule scan_block_match [OF _ n z inter]) simp
  from M have sb: "scan_block ?xs (start + 1) 1 = Some (j + 1)"
    using j by simp
  from M have cj: "buf ! j = 125"
    using jl j by simp
  from M have tr: "scan_depths ?xs 1 = map (\<lambda>k. 1 + brace_depth (take (Suc k) ?xs)) [0..<Suc n]"
    by simp
  from M have ps: "\<forall>k<n. 0 < 1 + brace_depth (take (Suc k) ?xs)"
    by simp
  have eb: "extract_block buf start = slice buf start (j + 1)"
    using sb by (simp add: extract_block_def scan_open(1) [OF sl ob])
  have up: "[start..<j + 1] = start # map (\<lambda>k. k + Suc start) [0..<Suc n]"
  proof -
    have e: "j + 1 = Suc n + Suc start"
      using j by simp
    have c: "[start..<Suc n + Suc start] = start # [Suc start..<Suc n + Suc start]"
      by (rule upt_conv_Cons) simp
    show ?thesis
      unfolding e c map_add_upt ..
  qed
  have d0: "brace_depth (slice buf start (start + 1)) = 1"
    using slice_depth [OF sl ob, of start] by (simp add: brace_depth_Nil)
  have mp: "map (\<lambda>k. brace_depth (slice buf start (k + 1))) [start..<j + 1]
      = 1 # map (\<lambda>k. 1 + brace_depth (take (Suc k) ?xs)) [0..<Suc n]"
  proof -
    have "map (\<lambda>k. brace_depth (slice buf start (k + 1))) (map (\<lambda>k. k + Suc start) [0..<Suc n])
        = map (\<lambda>k. 1 + brace_depth (take (Suc k) ?xs)) [0..<Suc n]"
      unfolding map_map comp_def
    proof (rule map_cong [OF refl])
      fix m
      show "brace_depth (slice buf start (m + Suc start + 1)) = 1 + brace_depth (take (Suc m) ?xs)"
        using sd [of m] by (simp add: add.commute)
    qed
    then show ?thesis
      unfolding up list.map d0 by (rule arg_cong)
  qed
  have trace: "scan_depths (drop start buf) 0
      = map (\<lambda>k. brace_depth (slice buf start (k + 1))) [start..<j + 1]"
    unfolding mp scan_open(2) [OF sl ob] tr ..
  have lst: "last (scan_depths (drop start buf) 0) = 0"
    unfolding scan_open(2) [OF sl ob] tr using z by (simp add: last_map)
  have nonneg: "\<forall>d \<in> set (scan_depths (drop start buf) 0). 0 \<le> d"
  proof
    fix d assume "d \<in> set (scan_depths (drop start buf) 0)"
    then have "d = 1 \<or> (\<exists>k<Suc n. d = 1 + brace_depth (take (Suc k) ?xs))"
      unfolding scan_open(2) [OF sl ob] tr by (auto simp del: upt_Suc)
    then show "0 \<le> d"
      using ps z by (auto simp: less_Suc_eq)
  qed
  from eb cj trace lst nonneg show ?thesis by blast
qed

text \<open>The block that starts at position 1 of \<open>x{a{b}c}d\<close> ends at position 7.\<close>

theorem extract_block_balanced_witness:
  "extract_block (str ''x{a{b}c}d'') 1 = str ''{a{b}c}''
   \<and> str ''x{a{b}c}d'' ! 7 = 125
   \<and> scan_depths (drop 1 (str ''x{a{b}c}d'')) 0 = [1, 1, 2, 2, 1, 1, 0]"
proof -
  let ?b = "str ''x{a{b}c}d''"
  have h1: "(1::nat) < 7" by simp
  have h2: "7 < length ?b" by (simp add: str_def)
  have h3: "?b ! 1 = 123" by (simp add: str_def)
  have h4: "brace_depth (slice ?b 1 (7 + 1)) = 0"
    by (simp add: str_def slice_def brace_depth_def)
  have h5: "\<forall>k. 1 < k \<and> k < 7 \<longrightarrow> brace_depth (slice ?b 1 (k + 1)) \<noteq> 0"
    unfolding all_between_upt by (simp add: str_def slice_def brace_depth_def upt_rec)
  have s: "slice ?b 1 (7 + 1) = str ''{a{b}c}''"
    by (simp add: str_def slice_def)
  have m: "map (\<lambda>k. brace_depth (slice ?b 1 (k + 1))) [1..<7 + 1] = [1, 1, 2, 2, 1, 1, 0]"
    by (simp add: str_def slice_def brace_depth_def upt_rec)
  from extract_block_balanced [OF h1 h2 h3 h4 h5] show ?thesis
    unfolding s m by simp
qed

text \<open>
  C2, as the code has it.  If the character at \<open>start\<close> is an opening brace and the
  depth of the text read from \<open>start\<close> never returns to 0 before the end of the text,
  the loop ends without a \<open>break\<close>, \<open>end\<close> keeps its initial value \<open>start_brace\<close>, and
  the block extractor returns the empty slice \<open>content[start:start]\<close>.  The function has
  no failing operation: the model is total.
\<close>

theorem extract_block_unbalanced:
  assumes sl: "start < length buf" and ob: "buf ! start = 123"
    and never: "\<forall>k. start < k \<and> k < length buf \<longrightarrow>
                  brace_depth (slice buf start (k + 1)) \<noteq> 0"
  shows "extract_block buf start = []"
proof -
  let ?xs = "drop (Suc start) buf"
  have inter: "\<forall>k<length ?xs. 1 + brace_depth (take (Suc k) ?xs) \<noteq> 0"
  proof (intro allI impI)
    fix k assume k: "k < length ?xs"
    then have "start < k + start + 1 \<and> k + start + 1 < length buf" by simp
    with never have "brace_depth (slice buf start (k + start + 1 + 1)) \<noteq> 0" by blast
    then show "1 + brace_depth (take (Suc k) ?xs) \<noteq> 0"
      using slice_depth [OF sl ob, of "k + start + 1"] by simp
  qed
  have "scan_block ?xs (start + 1) 1 = None"
    by (rule scan_block_none [OF _ inter]) simp
  then show ?thesis
    by (simp add: extract_block_def scan_open(1) [OF sl ob] slice_def)
qed

text \<open>The block that starts at position 1 of \<open>a{b{c}\<close> is never closed.\<close>

theorem extract_block_unbalanced_witness:
  "extract_block (str ''a{b{c}'') 1 = []"
proof -
  let ?b = "str ''a{b{c}''"
  have h1: "1 < length ?b" by (simp add: str_def)
  have h2: "?b ! 1 = 123" by (simp add: str_def)
  have h3: "\<forall>k. 1 < k \<and> k < length ?b \<longrightarrow> brace_depth (slice ?b 1 (k + 1)) \<noteq> 0"
    unfolding all_between_upt by (simp add: str_def slice_def brace_depth_def upt_rec)
  from extract_block_unbalanced [OF h1 h2 h3] show ?thesis .
qed

text \<open>On the text \<open>{a\<close> the brace at position 0 is never closed; the extractor returns
  the empty string, not the slice through the end of the text.\<close>

theorem extract_block_unbalanced_counterexample:
  "str ''{a'' ! 0 = 123
   \<and> brace_depth (slice (str ''{a'') 0 1) \<noteq> 0
   \<and> brace_depth (slice (str ''{a'') 0 2) \<noteq> 0
   \<and> extract_block (str ''{a'') 0 = []
   \<and> extract_block (str ''{a'') 0 \<noteq> slice (str ''{a'') 0 (length (str ''{a''))"
  by (simp add: str_def slice_def brace_depth_def extract_block_def)


section \<open>Method locator\<close>

text \<open>The two signature patterns on a one-method file: both find the method \<open>t\<close>, and its
  body is the block that follows the signature.\<close>

lemma extract_methods_example:
  "extract_methods (str ''@Test void t() { if (a) { f(); } }'')
    = [(str ''t'', str ''{ if (a) { f(); } }'')]"
  by code_simp

lemma extract_test_methods_example:
  "extract_test_methods (str ''@Test void t() { if (a) { f(); } }'')
    = [(str ''t'', str ''{ if (a) { f(); } }'')]"
  by code_simp

lemma extract_methods_empty: "extract_methods [] = []"
  by code_simp


section \<open>Complexity analyzer\<close>

lemma cyclomatic_plain: "calc_cyclomatic (str ''{ x = 1; }'') = 1"
  by code_simp

lemma cyclomatic_if: "calc_cyclomatic (str ''{ if (a) { x = 1; } }'') = 2"
  by code_simp

lemma cyclomatic_else_if:
  "calc_cyclomatic (str ''{ if (a) { x = 1; } else if (b) { x = 2; } }'') = 4"
  by code_simp

text \<open>
  C3.  A body without decision constructs has cyclomatic complexity 1 and one \<open>if\<close>
  raises it to 2, but one further \<open>else if\<close> raises it to 4, not 3: the \<open>if\<close> of
  \<open>else if\<close> is counted once by the pattern \<open>\bif\b\<close> and once more by the pattern
  \<open>\belse\s+if\b\<close>.
\<close>

theorem cyclomatic_else_if_counted_twice:
  "calc_cyclomatic (str ''{ x = 1; }'') = 1
   \<and> calc_cyclomatic (str ''{ if (a) { x = 1; } }'') = 2
   \<and> calc_cyclomatic (str ''{ if (a) { x = 1; } else if (b) { x = 2; } }'') = 4"
  using cyclomatic_plain cyclomatic_if cyclomatic_else_if by simp

text \<open>
  The maintainability index guards the logical line count and the number of distinct
  tokens to a minimum of 1, but not their product's second factor: when the text has at
  most one distinct token, \<open>log2\<close> of the guarded count is 0, the Halstead volume is 0,
  and \<open>math.log\<close> of it raises.  With two or more distinct tokens no logarithm raises.
\<close>

lemma analyze_complexity_raises_iff:
  "analyze_complexity self sz = Inl ValueError
     \<longleftrightarrow> length (remdups (py_split (content self))) \<le> 1"
proof -
  define n where "n = length (remdups (py_split (content self)))"
  define loc where "loc = max (logical_loc sz) 1"
  have l2: "math_log2 (real (max n 1)) = Inr (log 2 (real (max n 1)))"
    by (simp add: math_log2_def)
  have lloc: "math_log (real_of_int loc) = Inr (ln (real_of_int loc))"
    unfolding loc_def by (simp add: math_log_def)
  have locpos: "0 < real_of_int loc"
    unfolding loc_def by simp
  show ?thesis
  proof (cases "n \<le> 1")
    case True
    then have "log 2 (real (max n 1)) = 0" by (simp add: max_def)
    then have "math_log (real_of_int loc * log 2 (real (max n 1))) = Inl ValueError"
      by (simp add: math_log_def)
    then show ?thesis
      using True l2
      by (simp add: analyze_complexity_def Let_def n_def [symmetric] loc_def [symmetric])
  next
    case False
    then have "1 < real (max n 1)" by simp
    then have "0 < log 2 (real (max n 1))" by simp
    with locpos have "0 < real_of_int loc * log 2 (real (max n 1))"
      by (rule mult_pos_pos)
    then have "math_log (real_of_int loc * log 2 (real (max n 1)))
        = Inr (ln (real_of_int loc * log 2 (real (max n 1))))"
      by (simp add: math_log_def)
    then show ?thesis
      using False l2 lloc
      by (simp add: analyze_complexity_def Let_def n_def [symmetric] loc_def [symmetric])
  qed
qed

text \<open>
  C1.  On the empty file the second pass of \<open>analyze\<close>, \<open>_analyze_complexity\<close>, raises
  \<open>ValueError\<close>: no method is found, the logical line count 0 is guarded to 1, the token
  count 0 is guarded to 1, the Halstead volume is \<open>1 * log2(1) = 0\<close>, and \<open>math.log(0)\<close>
  is a domain error.  The exception leaves \<open>analyze\<close>, so no report is produced.
\<close>

theorem analyze_complexity_empty_raises:
  "analyze_complexity (init []) (analyze_size (init [])) = Inl ValueError"
  by (simp add: analyze_complexity_def init_def extract_methods_empty py_split_def
      math_log2_def math_log_def Let_def)


section \<open>Duplication analyzer\<close>

text \<open>
  C9.  \<open>duplicate_lines\<close> is the sum of (count - 1) over the distinct meaningful line
  texts that occur at least twice.  \<open>duplicate_percentage\<close> is \<open>duplicate_lines\<close> divided
  by the number of meaningful lines, times 100, to one decimal place: a multiple of one
  tenth at most 0.05 away from that quotient (which of the two neighbours it is when the
  quotient lies exactly between them is left open: there the floating-point product
  decides).  A file without meaningful lines has 0 for both.  A file whose meaningful
  lines are all different has \<open>duplicate_lines = 0\<close> and \<open>duplicate_percentage = 0\<close>.
\<close>

theorem duplication_counts:
  "duplicate_lines (analyze_duplication self)
     = (\<Sum>t \<in> {t \<in> set (map snd (meaningful_lines self)).
                 2 \<le> count_list (map snd (meaningful_lines self)) t}.
          int (count_list (map snd (meaningful_lines self)) t) - 1)
   \<and> (0 < length (meaningful_lines self) \<longrightarrow>
        \<bar>duplicate_percentage (analyze_duplication self)
          - real_of_int (duplicate_lines (analyze_duplication self))
              / real (length (meaningful_lines self)) * 100\<bar> \<le> 1 / 20)
   \<and> (meaningful_lines self = [] \<longrightarrow>
        duplicate_lines (analyze_duplication self) = 0
        \<and> duplicate_percentage (analyze_duplication self) = 0)
   \<and> one_decimal (duplicate_percentage (analyze_duplication self))
   \<and> (distinct (map snd (meaningful_lines self)) \<longrightarrow>
        duplicate_lines (analyze_duplication self) = 0
        \<and> duplicate_percentage (analyze_duplication self) = 0)"
proof -
  let ?xs = "map snd (meaningful_lines self)"
  let ?n = "length (meaningful_lines self)"
  have dl: "duplicate_lines (analyze_duplication self)
     = (\<Sum>t \<in> {t \<in> set ?xs. 2 \<le> count_list ?xs t}. int (count_list ?xs t) - 1)"
    using duplicate_sum [of ?xs] by (simp add: analyze_duplication_def Let_def)
  have dp: "duplicate_percentage (analyze_duplication self)
     = py_round1 (real_of_int (duplicate_lines (analyze_duplication self))
                   / real_of_int (max (int ?n) 1) * 100)"
    by (simp add: analyze_duplication_def Let_def)
  have near: "\<bar>duplicate_percentage (analyze_duplication self)
          - real_of_int (duplicate_lines (analyze_duplication self)) / real ?n * 100\<bar> \<le> 1 / 20"
    if "0 < ?n"
  proof -
    have "max (int ?n) 1 = int ?n"
      using that by (cases "meaningful_lines self") (auto simp: max_def)
    then have "real_of_int (max (int ?n) 1) = real ?n" by simp
    then show ?thesis unfolding dp by (simp only: py_round1_error)
  qed
  have uniq: "duplicate_lines (analyze_duplication self) = 0
        \<and> duplicate_percentage (analyze_duplication self) = 0"
    if "distinct ?xs"
  proof -
    have e: "{t \<in> set ?xs. 2 \<le> count_list ?xs t} = {}"
      using count_list_distinct [OF that] by (auto simp: not_less_eq_eq)
    have z: "duplicate_lines (analyze_duplication self) = 0"
      by (simp only: dl e sum.empty)
    show ?thesis
      unfolding dp z by (simp add: py_round1_zero)
  qed
  have none: "duplicate_lines (analyze_duplication self) = 0
        \<and> duplicate_percentage (analyze_duplication self) = 0"
    if "meaningful_lines self = []"
    using uniq that by simp
  have dec: "one_decimal (duplicate_percentage (analyze_duplication self))"
    unfolding dp by (rule one_decimal_round)
  from dl near none dec uniq show ?thesis by blast
qed

lemma meaningful_two_unique:
  "map snd (meaningful_lines (init (str ''total = compute(a);\<newline>\<newline>other = compute(b);'')))
   = [str ''total = compute(a);'', str ''other = compute(b);'']"
  unfolding meaningful_lines_def lines_init by code_simp

lemma meaningful_one_repeated:
  "map snd (meaningful_lines (init (str ''total = compute(a);\<newline>total = compute(a);\<newline>other = compute(b);'')))
   = [str ''total = compute(a);'', str ''total = compute(a);'', str ''other = compute(b);'']"
  unfolding meaningful_lines_def lines_init by code_simp

lemma meaningful_none: "meaningful_lines (init []) = []"
  unfolding meaningful_lines_def lines_init by code_simp

text \<open>Three files: two different meaningful lines; no meaningful line; three meaningful
  lines of which one repeats another, where one duplicate line out of three gives a
  percentage within 0.05 of \<open>1 / 3 * 100\<close>.\<close>

theorem duplication_counts_witness:
  "distinct (map snd (meaningful_lines (init (str ''total = compute(a);\<newline>\<newline>other = compute(b);''))))
   \<and> duplicate_percentage (analyze_duplication (init (str ''total = compute(a);\<newline>\<newline>other = compute(b);''))) = 0
   \<and> meaningful_lines (init []) = []
   \<and> duplicate_percentage (analyze_duplication (init [])) = 0
   \<and> 0 < length (meaningful_lines (init (str ''total = compute(a);\<newline>total = compute(a);\<newline>other = compute(b);'')))
   \<and> duplicate_lines (analyze_duplication (init (str ''total = compute(a);\<newline>total = compute(a);\<newline>other = compute(b);''))) = 1
   \<and> \<bar>duplicate_percentage (analyze_duplication (init (str ''total = compute(a);\<newline>total = compute(a);\<newline>other = compute(b);'')))
        - 1 / 3 * 100\<bar> \<le> 1 / 20"
proof -
  let ?a2 = "init (str ''total = compute(a);\<newline>\<newline>other = compute(b);'')"
  let ?a3 = "init (str ''total = compute(a);\<newline>total = compute(a);\<newline>other = compute(b);'')"
  have d: "distinct (map snd (meaningful_lines ?a2))"
    unfolding meaningful_two_unique by (simp add: str_def)
  have n: "length (meaningful_lines ?a3) = 3"
    using arg_cong [OF meaningful_one_repeated, of length] by simp
  have c: "Counter (map snd (meaningful_lines ?a3))
      = [(str ''total = compute(a);'', 2), (str ''other = compute(b);'', 1)]"
    unfolding meaningful_one_repeated by (simp add: Counter_def str_def)
  have dl: "duplicate_lines (analyze_duplication ?a3) = 1"
    by (simp add: analyze_duplication_def Let_def c)
  from duplication_counts [of ?a2] d
  have p2: "duplicate_percentage (analyze_duplication ?a2) = 0" by blast
  from duplication_counts [of "init []"] meaningful_none
  have p0: "duplicate_percentage (analyze_duplication (init [])) = 0" by blast
  have pos: "0 < length (meaningful_lines ?a3)"
    unfolding n by simp
  note near = duplication_counts [of ?a3, THEN conjunct2, THEN conjunct1, THEN mp, OF pos]
  have p3: "\<bar>duplicate_percentage (analyze_duplication ?a3) - 1 / 3 * 100\<bar> \<le> 1 / 20"
    using near unfolding dl n by simp
  from d p2 meaningful_none p0 pos dl p3 show ?thesis by blast
qed


section \<open>Ratio and percentage fields\<close>

text \<open>
  The four percentages that divide a part by its whole, \<open>comment_ratio\<close>,
  \<open>duplicate_percentage\<close>, \<open>aaa_percentage\<close> and \<open>exception_handling_percentage\<close>, lie in
  [0, 100] for every analyzer state, and each is a multiple of one tenth.
\<close>

lemma sibling_percentages_bounded:
  "0 \<le> comment_ratio (analyze_size self) \<and> comment_ratio (analyze_size self) \<le> 100
   \<and> one_decimal (comment_ratio (analyze_size self))
   \<and> 0 \<le> duplicate_percentage (analyze_duplication self)
   \<and> duplicate_percentage (analyze_duplication self) \<le> 100
   \<and> one_decimal (duplicate_percentage (analyze_duplication self))
   \<and> 0 \<le> aaa_percentage (analyze_tests self) \<and> aaa_percentage (analyze_tests self) \<le> 100
   \<and> one_decimal (aaa_percentage (analyze_tests self))
   \<and> 0 \<le> exception_handling_percentage (analyze_tests self)
   \<and> exception_handling_percentage (analyze_tests self) \<le> 100
   \<and> one_decimal (exception_handling_percentage (analyze_tests self))"
proof -
  have size: "0 \<le> comment_ratio (analyze_size self) \<and> comment_ratio (analyze_size self) \<le> 100
      \<and> one_decimal (comment_ratio (analyze_size self))"
  proof (cases "lines self = []")
    case True
    then show ?thesis
      by (simp add: analyze_size_def one_decimal_def)
  next
    case False
    let ?c = "int (length (filter is_comment_line (lines self)))"
    let ?t = "int (length (lines self))"
    have c: "0 \<le> ?c" "?c \<le> ?t" by simp_all
    have t: "max ?t 1 = ?t" "?t > 0" using False by (cases "lines self"; simp)+
    have cr: "comment_ratio (analyze_size self) = py_round1 (real_of_int ?c / real_of_int ?t * 100)"
      using t(2) by (simp add: analyze_size_def Let_def)
    show ?thesis
      unfolding cr using percent_range [OF c] unfolding t(1)
      by (simp only: one_decimal_round simp_thms)
  qed
  have dup: "0 \<le> duplicate_percentage (analyze_duplication self)
      \<and> duplicate_percentage (analyze_duplication self) \<le> 100
      \<and> one_decimal (duplicate_percentage (analyze_duplication self))"
  proof -
    let ?xs = "map snd (meaningful_lines self)"
    let ?d = "sum_list (map (\<lambda>lc. snd lc - 1) (filter (\<lambda>lc. snd lc > 1) (Counter ?xs)))"
    have "0 \<le> ?d" "?d \<le> int (length (meaningful_lines self))"
      unfolding duplicate_sum using duplicate_sum_range [of ?xs] by simp_all
    from percent_range [OF this] show ?thesis
      by (simp add: analyze_duplication_def Let_def one_decimal_round)
  qed
  have tests: "0 \<le> aaa_percentage (analyze_tests self) \<and> aaa_percentage (analyze_tests self) \<le> 100
      \<and> one_decimal (aaa_percentage (analyze_tests self))
      \<and> 0 \<le> exception_handling_percentage (analyze_tests self)
      \<and> exception_handling_percentage (analyze_tests self) \<le> 100
      \<and> one_decimal (exception_handling_percentage (analyze_tests self))"
  proof -
    let ?n = "int (length (test_methods self))"
    let ?a = "int (length (filter (\<lambda>nb. aaa_organized (snd nb)) (test_methods self)))"
    let ?e = "int (length (filter (\<lambda>nb. has_exception_handling (snd nb)) (test_methods self)))"
    have a: "0 \<le> ?a" "?a \<le> ?n" by simp_all
    have e: "0 \<le> ?e" "?e \<le> ?n" by simp_all
    from percent_range [OF a] percent_range [OF e] show ?thesis
      by (simp add: analyze_tests_def count_aaa_organized_def Let_def one_decimal_round)
  qed
  from size dup tests show ?thesis by blast
qed

text \<open>\<open>dead_code_percentage\<close> is at least 0 and a multiple of one tenth.\<close>

lemma dead_code_percentage_lower:
  "0 \<le> dead_code_percentage (analyze_dead_code self m)
   \<and> one_decimal (dead_code_percentage (analyze_dead_code self m))"
  by (simp add: analyze_dead_code_def Let_def one_decimal_round py_round1_nonneg)

lemma example_test_methods:
  "extract_test_methods (str ''// given\<newline>@Test void t() { // when\<newline> assertThrows(x); }'')
    = [(str ''t'', str ''{ // when\<newline> assertThrows(x); }'')]"
  by code_simp

lemma example_aaa: "aaa_organized (str ''{ // when\<newline> assertThrows(x); }'')"
  by code_simp

lemma example_exception: "has_exception_handling (str ''{ // when\<newline> assertThrows(x); }'')"
  by code_simp

lemma example_lines:
  "lines (init (str ''// given\<newline>@Test void t() { // when\<newline> assertThrows(x); }''))
    = [str ''// given'', str ''@Test void t() { // when'', str '' assertThrows(x); }'']"
  unfolding lines_init by code_simp

lemma example_comment_lines:
  "filter is_comment_line
     [str ''// given'', str ''@Test void t() { // when'', str '' assertThrows(x); }'']
    = [str ''// given'']"
  by code_simp

text \<open>A file of three lines with one comment line and one test method that has a phase
  comment and an \<open>assertThrows\<close> call.\<close>

lemma sibling_percentages_example:
  "comment_ratio (analyze_size (init (str ''// given\<newline>@Test void t() { // when\<newline> assertThrows(x); }''))) = 333 / 10
   \<and> aaa_percentage (analyze_tests (init (str ''// given\<newline>@Test void t() { // when\<newline> assertThrows(x); }''))) = 100
   \<and> exception_handling_percentage (analyze_tests (init (str ''// given\<newline>@Test void t() { // when\<newline> assertThrows(x); }''))) = 100"
proof -
  let ?a = "init (str ''// given\<newline>@Test void t() { // when\<newline> assertThrows(x); }'')"
  have cr: "comment_ratio (analyze_size ?a) = 333 / 10"
    unfolding analyze_size_def Let_def example_lines example_comment_lines
    by (simp add: py_round1_def)
  have aaa: "aaa_percentage (analyze_tests ?a) = 100"
    unfolding analyze_tests_def count_aaa_organized_def Let_def test_methods_init
      example_test_methods
    by (simp add: example_aaa py_round1_def)
  have exc: "exception_handling_percentage (analyze_tests ?a) = 100"
    unfolding analyze_tests_def Let_def test_methods_init example_test_methods
    by (simp add: example_exception py_round1_def)
  from cr aaa exc show ?thesis by simp
qed

lemma class_methods:
  "extract_methods (str ''class T {\<newline> private int a;\<newline> private int b;\<newline> private int c;\<newline> void m() { }\<newline>}'')
    = [(str ''m'', str ''{ }'')]"
  by code_simp

lemma class_dead:
  "detect_dead_code (init (str ''class T {\<newline> private int a;\<newline> private int b;\<newline> private int c;\<newline> void m() { }\<newline>}''))
    = [str ''Unused field: a'', str ''Unused field: b'', str ''Unused field: c'']"
  unfolding detect_dead_code_def content_init by code_simp

lemma two_fields_methods: "extract_methods (str ''private a b;private a c;'') = []"
  by code_simp

lemma two_fields_dead:
  "detect_dead_code (init (str ''private a b;private a c;''))
    = [str ''Unused field: b'', str ''Unused field: c'']"
  unfolding detect_dead_code_def content_init by code_simp

text \<open>
  C5.  \<open>dead_code_percentage\<close> does not stay in [0, 100].  Unlike the four percentages
  above it does not divide a part by its whole: the dead private methods and the dead
  private fields are counted over the number of methods.  A class with one method and
  three unused private fields has a dead-code percentage of 300, and a file that declares
  two private fields and no method has 200.
\<close>

theorem dead_code_percentage_exceeds_100:
  "dead_code_percentage (analyze_dead_code
      (init (str ''class T {\<newline> private int a;\<newline> private int b;\<newline> private int c;\<newline> void m() { }\<newline>}''))
      (code_smells_m (default_metrics []))) = 300
   \<and> dead_code_percentage (analyze_dead_code (init (str ''private a b;private a c;''))
      (code_smells_m (default_metrics []))) = 200"
  by (simp add: analyze_dead_code_def Let_def class_dead class_methods two_fields_dead
      methods_init two_fields_methods py_round1_def)


section \<open>Score aggregator\<close>

text \<open>
  C4, as the code has it.  The score aggregator is a total function.  For a metrics
  record in which every sub-metric the aggregator reads is zero, every category
  contributes no penalty except the low-AAA category, whose flat penalty of 10 applies
  because an \<open>aaa_percentage\<close> of 0 is below 50; the score is exactly 90.
\<close>

theorem score_zero_metrics:
  assumes "avg_cyclomatic (complexity_m metrics) = 0"
    and "code_smell_count (code_smells_m metrics) = 0"
    and "duplicate_percentage (duplication_m metrics) = 0"
    and "violation_count (conventions_m metrics) = 0"
    and "long_test_count (test_m metrics) = 0"
    and "aaa_percentage (test_m metrics) = 0"
    and "syntax_errors (syntax_m metrics) = 0"
    and "framework_keyword_violations (framework_m metrics) = 0"
  shows "calculate_quality_score metrics = 90
     \<and> complexity_deduction metrics = 0 \<and> smell_deduction metrics = 0
     \<and> duplication_deduction metrics = 0 \<and> convention_deduction metrics = 0
     \<and> long_test_deduction metrics = 0 \<and> aaa_deduction metrics = 10
     \<and> syntax_deduction metrics = 0 \<and> framework_deduction metrics = 0"
  using assms
  by (simp add: calculate_quality_score_def py_int_def complexity_deduction_def
      smell_deduction_def duplication_deduction_def convention_deduction_def
      long_test_deduction_def aaa_deduction_def syntax_deduction_def framework_deduction_def)

text \<open>The record of the dataclass defaults scores 90.\<close>

theorem score_zero_metrics_witness:
  "calculate_quality_score (default_metrics []) = 90
   \<and> aaa_deduction (default_metrics []) = 10"
  using score_zero_metrics [of "default_metrics []"]
  by (simp add: default_metrics_def)

text \<open>The record of the dataclass defaults does not score 100: its low-AAA deduction is
  not zero.\<close>

theorem score_default_counterexample:
  "calculate_quality_score (default_metrics []) \<noteq> 100
   \<and> aaa_deduction (default_metrics []) \<noteq> 0"
  by (simp add: default_metrics_def calculate_quality_score_def py_int_def complexity_deduction_def
      smell_deduction_def duplication_deduction_def convention_deduction_def
      long_test_deduction_def aaa_deduction_def syntax_deduction_def framework_deduction_def)



end
